theory Spec2Isabelle
  imports Main "HOL-Library.Word" "HOL-Library.Log_Nat"
begin

unbundle bit_operations_syntax

section \<open>IEEE-754 binary formats\<close>

text \<open>
  The program computes on C++ \<^verbatim>\<open>float\<close> and \<^verbatim>\<open>double\<close> values. A \<^verbatim>\<open>float\<close> is
  modelled by its 32-bit pattern and a \<^verbatim>\<open>double\<close> by its 64-bit pattern, because
  \<^verbatim>\<open>sqrt_approx\<close> works on the pattern itself. The numeric meaning of a pattern is its
  decoding: a NaN, a signed infinity, or a sign and a rational magnitude (the sign is kept
  apart so that \<open>-0.0\<close> differs from \<open>+0.0\<close>). Arithmetic decodes the operands, computes
  the exact result and rounds it to nearest, ties to even, as IEEE-754 prescribes for the
  default rounding mode. Every operation rounds to the format of its own type, as on a
  machine with scalar \<^verbatim>\<open>float\<close> and \<^verbatim>\<open>double\<close> instructions.

  The sign and payload of a NaN that an operation produces are left to the hardware by the
  standard; the encoding below returns the quiet NaN with an empty payload. The general
  statements below do not depend on which NaN it is; only the evaluations at a NaN input
  show this choice.
\<close>

datatype fp = NaN | Infty bool | Fin bool rat

text \<open>A format is given by its number of exponent bits and of fraction bits.\<close>

record format =
  ebits :: nat
  fbits :: nat

definition binary32 :: format where
  "binary32 = \<lparr>ebits = 8, fbits = 23\<rparr>"

definition binary64 :: format where
  "binary64 = \<lparr>ebits = 11, fbits = 52\<rparr>"

definition bias :: "format \<Rightarrow> int" where
  "bias f = 2 ^ (ebits f - 1) - 1"

definition emin :: "format \<Rightarrow> int" where
  "emin f = 1 - bias f"

definition emax :: "format \<Rightarrow> int" where
  "emax f = bias f"

definition pow2 :: "int \<Rightarrow> rat" where
  "pow2 e = (if 0 \<le> e then 2 ^ nat e else 1 / 2 ^ nat (- e))"

text \<open>The signed value of a finite number.\<close>

definition sval :: "bool \<Rightarrow> rat \<Rightarrow> rat" where
  "sval s m = (if s then - m else m)"

definition decode :: "format \<Rightarrow> int \<Rightarrow> fp" where
  "decode f w =
     (let s = ((w div 2 ^ (ebits f + fbits f)) mod 2 = 1);
          ex = (w div 2 ^ fbits f) mod 2 ^ ebits f;
          fr = w mod 2 ^ fbits f
      in if ex = 2 ^ ebits f - 1 then (if fr = 0 then Infty s else NaN)
         else if ex = 0 then Fin s (of_int fr * pow2 (emin f - int (fbits f)))
         else Fin s (of_int (2 ^ fbits f + fr) * pow2 (ex - bias f - int (fbits f))))"

text \<open>\<open>ilog2 m\<close> is the exponent \<open>e\<close> with \<open>2 ^ e \<le> m < 2 ^ (e + 1)\<close>, for \<open>m > 0\<close>.\<close>

definition ilog2 :: "rat \<Rightarrow> int" where
  "ilog2 m =
     (let (a, b) = quotient_of m;
          d = bitlen a - bitlen b
      in if pow2 d \<le> m then d else d - 1)"

definition round_half_even :: "rat \<Rightarrow> int" where
  "round_half_even x =
     (let n = \<lfloor>x\<rfloor>; r = x - of_int n
      in if r < 1 / 2 then n
         else if 1 / 2 < r then n + 1
         else if even n then n else n + 1)"

text \<open>
  Rounding a sign and an exact magnitude into a format: the magnitude is scaled by the
  quantum of its binade (of the lowest binade for a subnormal), rounded to an integer,
  and overflows to an infinity when the exponent of the rounded value exceeds the largest
  of the format.
\<close>

definition round_fp :: "format \<Rightarrow> bool \<Rightarrow> rat \<Rightarrow> fp" where
  "round_fp f s m =
     (if m = 0 then Fin s 0
      else let e = max (ilog2 m) (emin f);
               q = pow2 (e - int (fbits f));
               r = of_int (round_half_even (m / q)) * q
           in if emax f < ilog2 r then Infty s else Fin s r)"

definition sign_bit :: "format \<Rightarrow> bool \<Rightarrow> int" where
  "sign_bit f s = (if s then 2 ^ (ebits f + fbits f) else 0)"

text \<open>
  The pattern of a value of the format (of a value that \<open>round_fp\<close> returned), as an
  unsigned integer.
\<close>

definition encode :: "format \<Rightarrow> fp \<Rightarrow> int" where
  "encode f v =
     (case v of
        NaN \<Rightarrow> (2 ^ ebits f - 1) * 2 ^ fbits f + 2 ^ (fbits f - 1)
      | Infty s \<Rightarrow> sign_bit f s + (2 ^ ebits f - 1) * 2 ^ fbits f
      | Fin s m \<Rightarrow>
          if m = 0 then sign_bit f s
          else let e = ilog2 m
               in if e < emin f
                  then sign_bit f s + \<lfloor>m / pow2 (emin f - int (fbits f))\<rfloor>
                  else sign_bit f s + (e + bias f) * 2 ^ fbits f
                       + (\<lfloor>m / pow2 (e - int (fbits f))\<rfloor> - 2 ^ fbits f))"

subsection \<open>Operations on decoded values\<close>

fun fp_lt :: "fp \<Rightarrow> fp \<Rightarrow> bool" where
  "fp_lt NaN _ = False"
| "fp_lt _ NaN = False"
| "fp_lt (Infty s) (Infty t) = (s \<and> \<not> t)"
| "fp_lt (Infty s) (Fin t n) = s"
| "fp_lt (Fin s m) (Infty t) = (\<not> t)"
| "fp_lt (Fin s m) (Fin t n) = (sval s m < sval t n)"

text \<open>\<open>a \<le> b\<close> is used only to state that an input is non-negative.\<close>

fun fp_le :: "fp \<Rightarrow> fp \<Rightarrow> bool" where
  "fp_le NaN _ = False"
| "fp_le _ NaN = False"
| "fp_le (Infty s) (Infty t) = (if s then True else \<not> t)"
| "fp_le (Infty s) (Fin t n) = s"
| "fp_le (Fin s m) (Infty t) = (\<not> t)"
| "fp_le (Fin s m) (Fin t n) = (sval s m \<le> sval t n)"

fun fp_add :: "format \<Rightarrow> fp \<Rightarrow> fp \<Rightarrow> fp" where
  "fp_add f NaN _ = NaN"
| "fp_add f _ NaN = NaN"
| "fp_add f (Infty s) (Infty t) = (if s = t then Infty s else NaN)"
| "fp_add f (Infty s) (Fin t n) = Infty s"
| "fp_add f (Fin s m) (Infty t) = Infty t"
| "fp_add f (Fin s m) (Fin t n) =
     (let r = sval s m + sval t n
      in if r = 0 then Fin (s \<and> t) 0 else round_fp f (r < 0) \<bar>r\<bar>)"

fun fp_mul :: "format \<Rightarrow> fp \<Rightarrow> fp \<Rightarrow> fp" where
  "fp_mul f NaN _ = NaN"
| "fp_mul f _ NaN = NaN"
| "fp_mul f (Infty s) (Infty t) = Infty (s \<noteq> t)"
| "fp_mul f (Infty s) (Fin t n) = (if n = 0 then NaN else Infty (s \<noteq> t))"
| "fp_mul f (Fin s m) (Infty t) = (if m = 0 then NaN else Infty (s \<noteq> t))"
| "fp_mul f (Fin s m) (Fin t n) = round_fp f (s \<noteq> t) (m * n)"

fun fp_div :: "format \<Rightarrow> fp \<Rightarrow> fp \<Rightarrow> fp" where
  "fp_div f NaN _ = NaN"
| "fp_div f _ NaN = NaN"
| "fp_div f (Infty s) (Infty t) = NaN"
| "fp_div f (Infty s) (Fin t n) = Infty (s \<noteq> t)"
| "fp_div f (Fin s m) (Infty t) = Fin (s \<noteq> t) 0"
| "fp_div f (Fin s m) (Fin t n) =
     (if n = 0 then (if m = 0 then NaN else Infty (s \<noteq> t))
      else round_fp f (s \<noteq> t) (m / n))"

text \<open>Conversion into a format: only a finite value is rounded.\<close>

fun fp_round :: "format \<Rightarrow> fp \<Rightarrow> fp" where
  "fp_round f (Fin s m) = round_fp f s m"
| "fp_round f v = v"

subsection \<open>The C++ types\<close>

type_synonym float = "32 word"
type_synonym double = "64 word"

definition decode32 :: "float \<Rightarrow> fp" where
  "decode32 w = decode binary32 (uint w)"

definition encode32 :: "fp \<Rightarrow> float" where
  "encode32 v = word_of_int (encode binary32 v)"

definition decode64 :: "double \<Rightarrow> fp" where
  "decode64 w = decode binary64 (uint w)"

definition encode64 :: "fp \<Rightarrow> double" where
  "encode64 v = word_of_int (encode binary64 v)"

text \<open>\<^verbatim>\<open>a < b\<close>, \<^verbatim>\<open>a + b\<close> and \<^verbatim>\<open>a / b\<close> on \<^verbatim>\<open>float\<close>.\<close>

definition flt_lt :: "float \<Rightarrow> float \<Rightarrow> bool" where
  "flt_lt a b = fp_lt (decode32 a) (decode32 b)"

definition flt_le :: "float \<Rightarrow> float \<Rightarrow> bool" where
  "flt_le a b = fp_le (decode32 a) (decode32 b)"

definition flt_add :: "float \<Rightarrow> float \<Rightarrow> float" where
  "flt_add a b = encode32 (fp_add binary32 (decode32 a) (decode32 b))"

definition flt_div :: "float \<Rightarrow> float \<Rightarrow> float" where
  "flt_div a b = encode32 (fp_div binary32 (decode32 a) (decode32 b))"

text \<open>\<^verbatim>\<open>a * b\<close> on \<^verbatim>\<open>double\<close>, and the implicit conversions between the two types.\<close>

definition dbl_mul :: "double \<Rightarrow> double \<Rightarrow> double" where
  "dbl_mul a b = encode64 (fp_mul binary64 (decode64 a) (decode64 b))"

definition float_to_double :: "float \<Rightarrow> double" where
  "float_to_double a = encode64 (fp_round binary64 (decode32 a))"

definition double_to_float :: "double \<Rightarrow> float" where
  "double_to_float d = encode32 (fp_round binary32 (decode64 d))"

text \<open>The conversion of an integer to \<^verbatim>\<open>float\<close>, as in \<^verbatim>\<open>(float)num\<close> and in \<^verbatim>\<open>num < 0\<close>.\<close>

definition int_to_float :: "int \<Rightarrow> float" where
  "int_to_float n = encode32 (round_fp binary32 (n < 0) (of_int \<bar>n\<bar>))"

definition is_nan :: "float \<Rightarrow> bool" where
  "is_nan a = (decode32 a = NaN)"

definition is_finite :: "float \<Rightarrow> bool" where
  "is_finite a = (case decode32 a of Fin s m \<Rightarrow> True | _ \<Rightarrow> False)"

section \<open>The square-root functions\<close>

text \<open>
  \<^verbatim>\<open>throw invalid_argument(...)\<close> is the only exception of the program. \<open>Uninitialised\<close>
  stands for the read of a local variable that no statement has assigned, which C++ leaves
  undefined.
\<close>

datatype error = InvalidArgument | Uninitialised

text \<open>
  \<^verbatim>\<open>sqrt_approx\<close>: the union \<^verbatim>\<open>{ float f; uint32_t i; }\<close> gives the pattern of \<^verbatim>\<open>num\<close> as an
  unsigned 32-bit integer, the three compound assignments work on it modulo \<open>2 ^ 32\<close>, and
  the pattern is read back as a \<^verbatim>\<open>float\<close>.
\<close>

definition sqrt_approx :: "float \<Rightarrow> error + float" where
  "sqrt_approx num =
     (if flt_lt num (int_to_float 0) then Inl InvalidArgument
      else let i = num;
               i = i - push_bit 23 1;
               i = drop_bit 1 i;
               i = i + push_bit 29 1
           in Inr i)"

text \<open>
  The overloads of \<^verbatim>\<open>cmath\<close> that the program, or a statement about it, calls. They belong
  to the C++ standard library, not to the repository, so they are parameters of the model:
  \<^verbatim>\<open>std::pow(double, double)\<close>, \<^verbatim>\<open>std::pow(float, float)\<close> and \<^verbatim>\<open>std::sqrt(float)\<close>.
\<close>

record cmath =
  pow_double :: "double \<Rightarrow> double \<Rightarrow> double"
  pow_float :: "float \<Rightarrow> float \<Rightarrow> float"
  sqrt_float :: "float \<Rightarrow> float"

text \<open>The literal \<^verbatim>\<open>0.5\<close> has type \<^verbatim>\<open>double\<close>.\<close>

definition half :: double where
  "half = encode64 (Fin False (1 / 2))"

text \<open>
  \<^verbatim>\<open>sqrt_1\<close>: in \<^verbatim>\<open>pow(num, 0.5)\<close> the first argument is a \<^verbatim>\<open>float\<close> and the second a
  \<^verbatim>\<open>double\<close>, so overload resolution promotes \<^verbatim>\<open>num\<close> and calls the \<^verbatim>\<open>double\<close> power
  function; the \<^verbatim>\<open>return\<close> converts its result to \<^verbatim>\<open>float\<close>.
\<close>

definition sqrt_1 :: "cmath \<Rightarrow> float \<Rightarrow> error + float" where
  "sqrt_1 lib num =
     (if flt_lt num (int_to_float 0) then Inl InvalidArgument
      else Inr (double_to_float (pow_double lib (float_to_double num) half)))"

text \<open>\<^verbatim>\<open>sqrt_2\<close>: \<^verbatim>\<open>sqrt(num)\<close> on a \<^verbatim>\<open>float\<close> selects \<^verbatim>\<open>std::sqrt(float)\<close>.\<close>

definition sqrt_2 :: "cmath \<Rightarrow> float \<Rightarrow> error + float" where
  "sqrt_2 lib num =
     (if flt_lt num (int_to_float 0) then Inl InvalidArgument
      else Inr (sqrt_float lib num))"

text \<open>
  \<^verbatim>\<open>sqrt_3\<close>: \<^verbatim>\<open>x + (num / x)\<close> is \<^verbatim>\<open>float\<close> arithmetic; the product with the \<^verbatim>\<open>double\<close>
  \<^verbatim>\<open>0.5\<close> is computed in \<^verbatim>\<open>double\<close> and converted back to \<^verbatim>\<open>float\<close> by the assignment
  to \<^verbatim>\<open>x\<close> and by the \<^verbatim>\<open>return\<close>. An exception of \<^verbatim>\<open>sqrt_approx\<close> is not caught.
\<close>

definition sqrt_3 :: "float \<Rightarrow> error + float" where
  "sqrt_3 num =
     (if flt_lt num (int_to_float 0) then Inl InvalidArgument
      else case sqrt_approx num of
             Inl e \<Rightarrow> Inl e
           | Inr x \<Rightarrow>
               let x = double_to_float
                         (dbl_mul half (float_to_double (flt_add x (flt_div num x))))
               in Inr (double_to_float
                         (dbl_mul half (float_to_double (flt_add x (flt_div num x))))))"

text \<open>
  The update of Newton's method as the specification writes it,
  \<open>x\<^sub>n\<^sub>+\<^sub>1 = 0.5 \<sqdot> (x\<^sub>n + num / x\<^sub>n)\<close>, on the types of the program.
\<close>

definition newton_update :: "float \<Rightarrow> float \<Rightarrow> float" where
  "newton_update num x =
     double_to_float (dbl_mul half (float_to_double (flt_add x (flt_div num x))))"

section \<open>Console output\<close>

text \<open>
  Standard output is the string of the characters written so far. The conversions of
  \<^verbatim>\<open>printf\<close> follow the C standard: \<^verbatim>\<open>%d\<close> and \<^verbatim>\<open>%lu\<close> write a decimal numeral, and
  \<^verbatim>\<open>%18.17f\<close> writes a \<^verbatim>\<open>double\<close> in fixed-point notation, rounded to 17 digits after
  the decimal point (to nearest, ties to even, on the exact value), and pads the text on
  the left with spaces to 18 characters. \<open>dec\<close> is the numeral of a non-negative integer;
  it is applied to nothing else, so \<open>digit_char\<close> only reads the positions 0 to 9.
\<close>

definition nl :: string where
  "nl = [CHR 0x0A]"

definition tab :: string where
  "tab = [CHR 0x09]"

definition digit_char :: "int \<Rightarrow> char" where
  "digit_char d = ''0123456789'' ! nat d"

definition is_digit :: "char \<Rightarrow> bool" where
  "is_digit c = (c \<in> set ''0123456789'')"

function dec :: "int \<Rightarrow> string" where
  "dec n = (if n < 10 then [digit_char n] else dec (n div 10) @ [digit_char (n mod 10)])"
  by pat_completeness auto
termination
  by (relation "measure nat") auto

declare dec.simps [simp del]

definition pad_left :: "char \<Rightarrow> nat \<Rightarrow> string \<Rightarrow> string" where
  "pad_left c w s = replicate (w - length s) c @ s"

definition fmt_d :: "int \<Rightarrow> string" where
  "fmt_d n = (if n < 0 then ''-'' @ dec (- n) else dec n)"

definition fmt_lu :: "64 word \<Rightarrow> string" where
  "fmt_lu n = dec (uint n)"

definition sign_text :: "bool \<Rightarrow> string" where
  "sign_text s = (if s then ''-'' else [])"

definition fmt_f :: "nat \<Rightarrow> nat \<Rightarrow> double \<Rightarrow> string" where
  "fmt_f w p d =
     pad_left (CHR '' '') w
       (case decode64 d of
          NaN \<Rightarrow> sign_text (bit d 63) @ ''nan''
        | Infty s \<Rightarrow> sign_text s @ ''inf''
        | Fin s m \<Rightarrow>
            let n = round_half_even (m * 10 ^ p)
            in sign_text s @ dec (n div 10 ^ p) @ ''.''
               @ pad_left (CHR ''0'') p (dec (n mod 10 ^ p)))"

text \<open>
  \<^verbatim>\<open>print_result\<close>: four calls of \<^verbatim>\<open>printf\<close>. The \<^verbatim>\<open>int8_t\<close> is promoted to \<^verbatim>\<open>int\<close> for \<^verbatim>\<open>%d\<close>,
  the \<^verbatim>\<open>float\<close> to \<^verbatim>\<open>double\<close> for \<^verbatim>\<open>%f\<close>, and \<^verbatim>\<open>%lu\<close> reads the \<^verbatim>\<open>int64_t\<close> as unsigned.
\<close>

definition print_result :: "string \<Rightarrow> 8 word \<Rightarrow> float \<Rightarrow> 64 word \<Rightarrow> string \<Rightarrow> string" where
  "print_result method num res runtime out =
     (let out = out @ nl;
          out = out @ method @ '':'' @ nl;
          out = out @ tab @ ''sqrt('' @ fmt_d (sint num) @ '') = ''
                    @ fmt_f 18 17 (float_to_double res) @ nl;
          out = out @ tab @ ''Average runtime = '' @ fmt_lu runtime @ '' nanoseconds.'' @ nl
      in out)"

section \<open>The benchmark\<close>

text \<open>
  The clock is the environment of the program. \<open>timer k\<close> is the nanosecond count that
  \<^verbatim>\<open>duration_cast<nanoseconds>(time_stop - time_start).count()\<close> yields for the \<open>k\<close>-th
  timed call of the run, a signed 64-bit integer. The state of one benchmark block is the
  number of calls timed so far and its two local variables; \<^verbatim>\<open>result\<close> starts unassigned.
\<close>

record bench =
  timed :: nat
  total_runtime_ns :: "64 word"
  result :: "float option"

text \<open>
  The \<^verbatim>\<open>for\<close> loop of a block. The counter \<^verbatim>\<open>i\<close> is an \<^verbatim>\<open>int\<close> compared with the \<^verbatim>\<open>int16_t\<close>
  \<^verbatim>\<open>test_runs\<close>, so it never overflows. An exception of the strategy leaves the loop. The
  addition to the total wraps around, as the machine's does.
\<close>

function bench_loop ::
  "(nat \<Rightarrow> 64 word) \<Rightarrow> (float \<Rightarrow> error + float) \<Rightarrow> float \<Rightarrow> int \<Rightarrow> int \<Rightarrow> bench
     \<Rightarrow> error + bench" where
  "bench_loop timer f x test_runs i b =
     (if i < test_runs
      then case f x of
             Inl e \<Rightarrow> Inl e
           | Inr r \<Rightarrow>
               bench_loop timer f x test_runs (i + 1)
                 (b\<lparr>timed := timed b + 1,
                    total_runtime_ns := total_runtime_ns b + timer (timed b),
                    result := Some r\<rparr>)
      else Inr b)"
  by pat_completeness auto
termination
  by (relation "measure (\<lambda>(timer, f, x, test_runs, i, b). nat (test_runs - i))") auto

declare bench_loop.simps [simp del]

text \<open>Division of C++ integers truncates towards zero.\<close>

definition trunc_div :: "int \<Rightarrow> int \<Rightarrow> int" where
  "trunc_div a b =
     (if (a < 0) = (b < 0) then \<bar>a\<bar> div \<bar>b\<bar> else - (\<bar>a\<bar> div \<bar>b\<bar>))"

definition int64_div :: "64 word \<Rightarrow> 64 word \<Rightarrow> 64 word" where
  "int64_div a b = word_of_int (trunc_div (sint a) (sint b))"

text \<open>
  One block of \<^verbatim>\<open>main\<close> up to the call of \<^verbatim>\<open>print_result\<close>: the loop, then the arguments
  \<^verbatim>\<open>result\<close> and \<^verbatim>\<open>total_runtime_ns / test_runs\<close>, with \<^verbatim>\<open>test_runs\<close> sign-extended to 64
  bits.
  It yields the number of calls timed so far, the result and the average.
\<close>

definition measure_block ::
  "(nat \<Rightarrow> 64 word) \<Rightarrow> (float \<Rightarrow> error + float) \<Rightarrow> 8 word \<Rightarrow> 16 word \<Rightarrow> nat
     \<Rightarrow> error + (nat \<times> float \<times> 64 word)" where
  "measure_block timer f num test_runs k =
     (case bench_loop timer f (int_to_float (sint num)) (sint test_runs) 0
             \<lparr>timed = k, total_runtime_ns = 0, result = None\<rparr> of
        Inl e \<Rightarrow> Inl e
      | Inr b \<Rightarrow>
          (case result b of
             None \<Rightarrow> Inl Uninitialised
           | Some r \<Rightarrow>
               Inr (timed b, r, int64_div (total_runtime_ns b) (scast test_runs))))"

text \<open>The state of the run: the calls timed so far and standard output.\<close>

record world =
  calls :: nat
  stdout :: string

definition block ::
  "(nat \<Rightarrow> 64 word) \<Rightarrow> (float \<Rightarrow> error + float) \<Rightarrow> string \<Rightarrow> 8 word \<Rightarrow> 16 word \<Rightarrow> world
     \<Rightarrow> error + world" where
  "block timer f method num test_runs w =
     (case measure_block timer f num test_runs (calls w) of
        Inl e \<Rightarrow> Inl e
      | Inr (k, r, avg) \<Rightarrow>
          Inr \<lparr>calls = k, stdout = print_result method num r avg (stdout w)\<rparr>)"

text \<open>
  What the process receives from outside. \<^verbatim>\<open>main\<close> declares \<^verbatim>\<open>argc\<close> and \<^verbatim>\<open>argv\<close> and uses
  neither, and no statement reads the environment.
\<close>

record process =
  argc :: "32 word"
  argv :: "string list"
  environ :: "string list"

text \<open>\<^verbatim>\<open>main\<close> yields the exit code and standard output, unless an exception ends it.\<close>

definition main_prog :: "process \<Rightarrow> cmath \<Rightarrow> (nat \<Rightarrow> 64 word) \<Rightarrow> error + (int \<times> string)" where
  "main_prog p lib timer =
     (let num = (42 :: 8 word);
          test_runs = (10000 :: 16 word);
          w = \<lparr>calls = 0, stdout = []\<rparr>
      in case block timer (sqrt_1 lib) ''math.h pow function'' num test_runs w of
           Inl e \<Rightarrow> Inl e
         | Inr w \<Rightarrow>
        (case block timer (sqrt_2 lib) ''cmath sqrt function'' num test_runs w of
           Inl e \<Rightarrow> Inl e
         | Inr w \<Rightarrow>
        (case block timer sqrt_3 ''Newton's Method'' num test_runs w of
           Inl e \<Rightarrow> Inl e
         | Inr w \<Rightarrow> Inr (0, stdout w @ nl))))"

text \<open>
  A library to evaluate the program with. Its functions are given at the arguments of the
  benchmark, where each returns the correctly rounded \<open>\<surd>42\<close> of its type (the \<^verbatim>\<open>double\<close>
  \<open>0x4019EC474A261264\<close> and the \<^verbatim>\<open>float\<close> \<open>0x40CF623A\<close>), and are NaN elsewhere.
\<close>

definition example_cmath :: cmath where
  "example_cmath =
     \<lparr>pow_double = (\<lambda>b e. if b = 0x4045000000000000 \<and> e = 0x3FE0000000000000
                             then 0x4019EC474A261264 else encode64 NaN),
      pow_float = (\<lambda>b e. if b = 0x42280000 \<and> e = 0x3F000000
                            then 0x40CF623A else encode32 NaN),
      sqrt_float = (\<lambda>x. if x = 0x42280000 then 0x40CF623A else encode32 NaN)\<rparr>"

text \<open>A clock to evaluate the benchmark with: its first three durations are 10, 20 and 35.\<close>

definition example_timer :: "nat \<Rightarrow> 64 word" where
  "example_timer k = (if k = 0 then 10 else if k = 1 then 20 else 35)"

section \<open>Properties\<close>

subsection \<open>The guard\<close>

lemma int_to_float_0: "int_to_float 0 = 0"
  by (simp add: int_to_float_def round_fp_def encode32_def encode_def sign_bit_def)

lemma fp_le_not_lt: "fp_le a b \<Longrightarrow> \<not> fp_lt b a"
  by (cases a; cases b) (auto split: if_splits)

lemma flt_le_not_lt: "flt_le a b \<Longrightarrow> \<not> flt_lt b a"
  by (simp add: flt_le_def flt_lt_def fp_le_not_lt)

lemma is_nan_not_lt: "is_nan num \<Longrightarrow> \<not> flt_lt num x"
  by (simp add: is_nan_def flt_lt_def)

lemma sqrt_approx_passed:
  "\<not> flt_lt num (int_to_float 0) \<Longrightarrow>
     sqrt_approx num = Inr (drop_bit 1 (num - 2 ^ 23) + 2 ^ 29)"
  by (simp add: sqrt_approx_def Let_def)

lemma sqrt_3_passed:
  "\<not> flt_lt num (int_to_float 0) \<Longrightarrow>
     sqrt_3 num
       = Inr (newton_update num (newton_update num (drop_bit 1 (num - 2 ^ 23) + 2 ^ 29)))"
  by (simp add: sqrt_3_def sqrt_approx_passed newton_update_def Let_def)

lemma uint_bit_steps:
  "uint (drop_bit 1 (num - 2 ^ 23) + 2 ^ 29 :: 32 word)
     = ((uint num - 2 ^ 23) mod 2 ^ 32 div 2 + 2 ^ 29) mod 2 ^ 32"
proof -
  have "uint (drop_bit 1 (num - 2 ^ 23)) = uint (num - 2 ^ 23) div 2"
    by (simp add: drop_bit_eq_div uint_div_distrib)
  then show ?thesis
    by (simp add: uint_word_ariths)
qed

subsection \<open>Values at the input of the benchmark\<close>

text \<open>
  \<^verbatim>\<open>(float)num\<close> for \<open>num = 42\<close> is the pattern \<open>0x42280000\<close>, its \<^verbatim>\<open>double\<close> the pattern
  \<open>0x4045000000000000\<close>, and \<open>0.5\<close> the pattern \<open>0x3FE0000000000000\<close>.
\<close>

lemma num_to_float: "int_to_float (sint (42 :: 8 word)) = 0x42280000"
  by code_simp

lemma not_negative_42: "\<not> flt_lt 0x42280000 (int_to_float 0)"
  by code_simp

lemma widen_42: "float_to_double 0x42280000 = 0x4045000000000000"
  by code_simp

lemma half_pattern: "half = 0x3FE0000000000000"
  by code_simp

lemma narrow_sqrt_42: "double_to_float 0x4019EC474A261264 = 0x40CF623A"
  by code_simp

lemma newton_at_42:
  "newton_update 0x42280000 0x40D40000 = 0x40CF6F18"
  "newton_update 0x42280000 0x40CF6F18 = 0x40CF623A"
  by code_simp+

lemma sqrt_3_at_42: "sqrt_3 0x42280000 = Inr 0x40CF623A"
proof -
  have "drop_bit 1 (0x42280000 - 2 ^ 23) + 2 ^ 29 = (0x40D40000 :: 32 word)"
    by simp
  with sqrt_3_passed [OF not_negative_42] show ?thesis
    by (simp only: newton_at_42)
qed

lemma newton_at_zero:
  "newton_update 0 0x9FC00000 = 0x9F400000"
  "newton_update 0 0x9F400000 = 0x9EC00000"
  by code_simp+

lemma sqrt_1_at_42:
  "sqrt_1 lib 0x42280000 = Inr (double_to_float (pow_double lib 0x4045000000000000 half))"
  by (simp add: sqrt_1_def not_negative_42 widen_42)

lemma sqrt_2_at_42: "sqrt_2 lib 0x42280000 = Inr (sqrt_float lib 0x42280000)"
  by (simp add: sqrt_2_def not_negative_42)

lemma float_42: "int_to_float 42 = 0x42280000"
  by code_simp

lemma fmt_d_42: "fmt_d 42 = ''42''"
  by code_simp

lemma example_run:
  "double_to_float (pow_double example_cmath 0x4045000000000000 half) = 0x40CF623A"
  "sqrt_float example_cmath 0x42280000 = 0x40CF623A"
  by (simp_all add: example_cmath_def half_pattern narrow_sqrt_42)

lemma average_37: "fmt_lu (int64_div 370000 10000) = ''37''"
  by code_simp

lemma widen_result: "float_to_double 0x40CF623A = 0x4019EC4740000000"
  by code_simp

lemma result_value: "decode64 0x4019EC4740000000 = Fin False (6795549 / 1048576)"
  by code_simp

subsection \<open>The loop of a block\<close>

lemma bench_loop_raises:
  "i < test_runs \<Longrightarrow> f x = Inl e \<Longrightarrow> bench_loop timer f x test_runs i b = Inl e"
  by (subst bench_loop.simps) simp

lemma block_raises:
  "0 < sint test_runs \<Longrightarrow> f (int_to_float (sint num)) = Inl e \<Longrightarrow>
     block timer f label num test_runs w = Inl e"
  by (simp add: block_def measure_block_def bench_loop_raises)

text \<open>
  When the strategy returns \<open>r\<close>, the loop ends after \<open>n - i\<close> further iterations: it has
  added their durations to the total and left \<open>r\<close> in \<^verbatim>\<open>result\<close>.
\<close>

lemma bench_loop_returns:
  assumes "f x = Inr r"
  shows "bench_loop timer f x n i b =
           Inr (if i < n
                then b\<lparr>timed := timed b + nat (n - i),
                       total_runtime_ns :=
                         total_runtime_ns b + (\<Sum>j = timed b..<timed b + nat (n - i). timer j),
                       result := Some r\<rparr>
                else b)"
  using assms
proof (induction timer f x n i b rule: bench_loop.induct)
  case (1 timer f x n i b)
  show ?case
  proof (cases "i < n")
    case False
    then show ?thesis
      by (subst bench_loop.simps) simp
  next
    case True
    let ?b = "b\<lparr>timed := timed b + 1,
                  total_runtime_ns := total_runtime_ns b + timer (timed b),
                  result := Some r\<rparr>"
    have step: "bench_loop timer f x n i b = bench_loop timer f x n (i + 1) ?b"
      using True "1.prems" by (subst bench_loop.simps) simp
    have ih: "bench_loop timer f x n (i + 1) ?b =
                Inr (if i + 1 < n
                     then ?b\<lparr>timed := timed ?b + nat (n - (i + 1)),
                            total_runtime_ns :=
                              total_runtime_ns ?b
                              + (\<Sum>j = timed ?b..<timed ?b + nat (n - (i + 1)). timer j),
                            result := Some r\<rparr>
                     else ?b)"
      using "1.IH" [OF True "1.prems" "1.prems"] .
    have n: "nat (n - i) = Suc (nat (n - (i + 1)))"
      using True by simp
    have s: "sum timer {timed b..<Suc (timed b + nat (n - (i + 1)))}
               = timer (timed b) + sum timer {Suc (timed b)..<Suc (timed b + nat (n - (i + 1)))}"
      by (rule sum.atLeast_Suc_lessThan) simp
    show ?thesis
      unfolding step ih using True by (simp add: s n add.assoc del: sum.op_ivl_Suc)
  qed
qed

lemma measure_block_returns:
  assumes "0 < sint test_runs" and "f (int_to_float (sint num)) = Inr r"
  shows "measure_block timer f num test_runs k =
           Inr (k + nat (sint test_runs), r,
                int64_div (\<Sum>j = k..<k + nat (sint test_runs). timer j) (scast test_runs))"
  using assms by (simp add: measure_block_def bench_loop_returns)

lemma block_returns:
  assumes "0 < sint test_runs" and "f (int_to_float (sint num)) = Inr r"
  shows "block timer f label num test_runs w =
           Inr \<lparr>calls = calls w + nat (sint test_runs),
                stdout = print_result label num r
                           (int64_div (\<Sum>j = calls w..<calls w + nat (sint test_runs). timer j)
                              (scast test_runs))
                           (stdout w)\<rparr>"
  using assms by (simp add: block_def measure_block_returns)

subsection \<open>Signed 64-bit arithmetic\<close>

lemma word_sum_of_sint:
  fixes w :: "nat \<Rightarrow> 64 word"
  shows "(\<Sum>j\<in>A. w j) = word_of_int (\<Sum>j\<in>A. sint (w j))"
  by (simp add: of_int_sum)

lemma sint_sum_in_range:
  fixes w :: "nat \<Rightarrow> 64 word"
  assumes "0 \<le> (\<Sum>j\<in>A. sint (w j))" and "(\<Sum>j\<in>A. sint (w j)) < 2 ^ 63"
  shows "sint (\<Sum>j\<in>A. w j) = (\<Sum>j\<in>A. sint (w j))"
proof -
  have "sint (\<Sum>j\<in>A. w j) = sint (word_of_int (\<Sum>j\<in>A. sint (w j)) :: 64 word)"
    by (simp only: word_sum_of_sint [of w A, symmetric])
  also have "\<dots> = signed_take_bit 63 (\<Sum>j\<in>A. sint (w j))"
    by (subst sint_sbintrunc') simp
  also have "\<dots> = (\<Sum>j\<in>A. sint (w j))"
    using assms by (intro signed_take_bit_int_eq_self) simp_all
  finally show ?thesis .
qed

lemma trunc_div_nonneg: "0 \<le> a \<Longrightarrow> 0 < b \<Longrightarrow> trunc_div a b = a div b"
  by (simp add: trunc_div_def)

lemma sint_test_runs: "sint (scast (t :: 16 word) :: 64 word) = sint t"
  by (rule sint_up_scast) (simp add: is_up)

lemma int64_div_nonneg:
  assumes "0 \<le> sint a" and "0 < sint t"
  shows "sint (int64_div a (scast (t :: 16 word))) = sint a div sint t"
proof -
  have "sint a < 2 ^ 63"
    using sint_lt [of a] by simp
  moreover have "sint a div sint t \<le> sint a"
    using zdiv_mono2 [of "sint a" 1 "sint t"] assms by simp
  moreover have "0 \<le> sint a div sint t"
    using assms by (simp add: pos_imp_zdiv_nonneg_iff)
  ultimately show ?thesis
    using assms
    by (simp add: int64_div_def sint_test_runs trunc_div_nonneg sint_sbintrunc'
        signed_take_bit_int_eq_self)
qed

lemma uint_of_nonneg:
  fixes a :: "64 word"
  assumes "0 \<le> sint a"
  shows "uint a = sint a"
proof -
  have "sint a < 2 ^ 64"
    using sint_lt [of a] by simp
  with assms show ?thesis
    by (simp add: uint_sint take_bit_int_eq_self)
qed

lemma example_timer_sum3: "(\<Sum>j = 0..<3. sint (example_timer j)) = 65"
  by (simp add: example_timer_def eval_nat_numeral)

subsection \<open>Decimal text\<close>

text \<open>
  The numeral of a non-negative integer is a non-empty string of digits, and \<^verbatim>\<open>%18.17f\<close>
  writes a finite value as its sign, the digits of the integer part, a point and exactly
  17 digits; this text has at least 19 characters, so the field width 18 never pads it.
\<close>

lemma digit_char_is_digit:
  assumes "0 \<le> d" and "d < 10"
  shows "is_digit (digit_char d)"
proof -
  from assms have "nat d < length ''0123456789''"
    by simp
  then show ?thesis
    unfolding is_digit_def digit_char_def by (rule nth_mem)
qed

lemma dec_digits: "0 \<le> n \<Longrightarrow> dec n \<noteq> [] \<and> list_all is_digit (dec n)"
proof (induction n rule: dec.induct)
  case (1 n)
  show ?case
  proof (cases "n < 10")
    case True
    with "1.prems" show ?thesis
      by (subst (1 2) dec.simps) (simp add: digit_char_is_digit)
  next
    case False
    with "1.prems" have "0 \<le> n div 10" "0 \<le> n mod 10" "n mod 10 < 10"
      by simp_all
    with "1.IH" False show ?thesis
      by (subst (1 2) dec.simps) (simp add: digit_char_is_digit)
  qed
qed

lemma length_dec: "0 \<le> n \<Longrightarrow> n < 10 ^ Suc k \<Longrightarrow> length (dec n) \<le> Suc k"
proof (induction k arbitrary: n)
  case 0
  then show ?case
    by (subst dec.simps) simp
next
  case (Suc k)
  show ?case
  proof (cases "n < 10")
    case True
    then show ?thesis
      by (subst dec.simps) simp
  next
    case False
    from Suc.prems have "n < 10 * 10 ^ Suc k"
      by simp
    then have "n div 10 < 10 ^ Suc k"
      by arith
    moreover from Suc.prems have "0 \<le> n div 10"
      by simp
    ultimately have "length (dec (n div 10)) \<le> Suc k"
      by (rule Suc.IH [rotated])
    with False show ?thesis
      by (subst dec.simps) simp
  qed
qed

lemma pow2_pos: "0 < pow2 e"
  by (simp add: pow2_def)

lemma decode_magnitude_nonneg:
  assumes "decode f w = Fin s m" and "0 \<le> w"
  shows "0 \<le> m"
proof -
  have "0 \<le> w mod 2 ^ fbits f"
    by simp
  then have "0 \<le> (of_int (w mod 2 ^ fbits f) :: rat)"
    and "0 \<le> (of_int (2 ^ fbits f + w mod 2 ^ fbits f) :: rat)"
    by simp_all
  with assms(1) pow2_pos show ?thesis
    by (auto simp: decode_def Let_def mult_nonneg_nonneg less_imp_le split: if_splits)
qed

lemma round_half_even_nonneg: "0 \<le> x \<Longrightarrow> 0 \<le> round_half_even x"
  by (simp add: round_half_even_def Let_def)

lemma pad_zeros:
  assumes "0 \<le> n" and "n < 10 ^ 17"
  shows "length (pad_left (CHR ''0'') 17 (dec n)) = 17
         \<and> list_all is_digit (pad_left (CHR ''0'') 17 (dec n))"
proof -
  from assms have "length (dec n) \<le> 17"
    using length_dec [of n 16] by simp
  moreover have "is_digit (CHR ''0'')"
    by (simp add: is_digit_def)
  ultimately show ?thesis
    using dec_digits [OF assms(1)] by (auto simp: pad_left_def list_all_iff)
qed

lemma fmt_f_fixed_point:
  assumes "decode64 d = Fin s m"
  shows "\<exists>ip fr. fmt_f 18 17 d = sign_text s @ ip @ ''.'' @ fr
           \<and> ip \<noteq> [] \<and> list_all is_digit ip \<and> length fr = 17 \<and> list_all is_digit fr"
proof -
  define n where "n = round_half_even (m * 10 ^ 17)"
  define ip where "ip = dec (n div 10 ^ 17)"
  define fr where "fr = pad_left (CHR ''0'') 17 (dec (n mod 10 ^ 17))"
  from assms have "0 \<le> m"
    unfolding decode64_def by (rule decode_magnitude_nonneg) simp
  then have n: "0 \<le> n"
    unfolding n_def by (intro round_half_even_nonneg) simp
  then have ip: "ip \<noteq> []" "list_all is_digit ip"
    unfolding ip_def using dec_digits [of "n div 10 ^ 17"] by (simp_all add: pos_imp_zdiv_nonneg_iff)
  have fr: "length fr = 17" "list_all is_digit fr"
    unfolding fr_def using pad_zeros [of "n mod 10 ^ 17"] by simp_all
  have "18 \<le> length (sign_text s @ ip @ ''.'' @ fr)"
    using ip(1) fr(1) by (cases ip) simp_all
  then have "fmt_f 18 17 d = sign_text s @ ip @ ''.'' @ fr"
    using assms by (simp add: fmt_f_def pad_left_def Let_def n_def ip_def fr_def)
  with ip fr show ?thesis
    by blast
qed

lemma fmt_lu_digits: "fmt_lu a \<noteq> [] \<and> list_all is_digit (fmt_lu a)"
  unfolding fmt_lu_def by (rule dec_digits) simp

lemma newton_text: "fmt_f 18 17 (float_to_double 0x40CF623A) = ''6.48074054718017578''"
  by code_simp

subsection \<open>The run of the program\<close>

lemma print_result_text:
  "print_result label 42 res runtime out =
     out @ nl @ label @ '':'' @ nl
     @ tab @ ''sqrt(42) = '' @ fmt_f 18 17 (float_to_double res) @ nl
     @ tab @ ''Average runtime = '' @ fmt_lu runtime @ '' nanoseconds.'' @ nl"
  by (simp add: print_result_def fmt_d_42)

lemma main_prog_runs:
  "main_prog p lib timer =
     Inr (0,
       nl @ ''math.h pow function:'' @ nl
       @ tab @ ''sqrt(42) = ''
       @ fmt_f 18 17 (float_to_double (double_to_float (pow_double lib 0x4045000000000000 half)))
       @ nl
       @ tab @ ''Average runtime = '' @ fmt_lu (int64_div (sum timer {0..<10000}) 10000)
       @ '' nanoseconds.'' @ nl
       @ nl @ ''cmath sqrt function:'' @ nl
       @ tab @ ''sqrt(42) = '' @ fmt_f 18 17 (float_to_double (sqrt_float lib 0x42280000)) @ nl
       @ tab @ ''Average runtime = '' @ fmt_lu (int64_div (sum timer {10000..<20000}) 10000)
       @ '' nanoseconds.'' @ nl
       @ nl @ ''Newton's Method:'' @ nl
       @ tab @ ''sqrt(42) = '' @ fmt_f 18 17 (float_to_double 0x40CF623A) @ nl
       @ tab @ ''Average runtime = '' @ fmt_lu (int64_div (sum timer {20000..<30000}) 10000)
       @ '' nanoseconds.'' @ nl
       @ nl)"
proof -
  have n: "0 < sint (10000 :: 16 word)"
    by simp
  have b1: "block timer (sqrt_1 lib) label 42 10000 w =
              Inr \<lparr>calls = calls w + 10000,
                   stdout = print_result label 42
                     (double_to_float (pow_double lib 0x4045000000000000 half))
                     (int64_div (sum timer {calls w..<calls w + 10000}) 10000) (stdout w)\<rparr>"
    for label w
    using block_returns [where f = "sqrt_1 lib" and num = 42 and timer = timer
        and label = label and w = w, OF n]
    by (simp add: float_42 sqrt_1_at_42)
  have b2: "block timer (sqrt_2 lib) label 42 10000 w =
              Inr \<lparr>calls = calls w + 10000,
                   stdout = print_result label 42 (sqrt_float lib 0x42280000)
                     (int64_div (sum timer {calls w..<calls w + 10000}) 10000) (stdout w)\<rparr>"
    for label w
    using block_returns [where f = "sqrt_2 lib" and num = 42 and timer = timer
        and label = label and w = w, OF n]
    by (simp add: float_42 sqrt_2_at_42)
  have b3: "block timer sqrt_3 label 42 10000 w =
              Inr \<lparr>calls = calls w + 10000,
                   stdout = print_result label 42 0x40CF623A
                     (int64_div (sum timer {calls w..<calls w + 10000}) 10000) (stdout w)\<rparr>"
    for label w
    using block_returns [where f = sqrt_3 and num = 42 and timer = timer
        and label = label and w = w, OF n]
    by (simp add: float_42 sqrt_3_at_42)
  show ?thesis
    by (simp add: main_prog_def b1 b2 b3 print_result_text)
qed

subsection \<open>The fast approximation\<close>

text \<open>
  C1. For every non-negative finite \<^verbatim>\<open>float\<close> \<open>num\<close>, \<^verbatim>\<open>sqrt_approx(num)\<close> returns the
  \<^verbatim>\<open>float\<close> whose pattern is obtained from the pattern of \<open>num\<close>, read as an unsigned
  32-bit integer, by subtracting \<open>1 << 23\<close>, shifting right logically by one bit and
  adding \<open>1 << 29\<close>, in this order. The second conjunct spells the three steps out on
  the unsigned value: subtraction and addition modulo \<open>2 ^ 32\<close>, the shift a division by 2.
\<close>

theorem sqrt_approx_bit_steps:
  assumes "is_finite num" and "flt_le (int_to_float 0) num"
  shows "sqrt_approx num = Inr (drop_bit 1 (num - push_bit 23 1) + push_bit 29 1)
         \<and> uint (drop_bit 1 (num - push_bit 23 1) + push_bit 29 1 :: 32 word)
             = ((uint num - 2 ^ 23) mod 2 ^ 32 div 2 + 2 ^ 29) mod 2 ^ 32"
proof -
  from assms(2) have "\<not> flt_lt num (int_to_float 0)"
    by (rule flt_le_not_lt)
  then have "sqrt_approx num = Inr (drop_bit 1 (num - 2 ^ 23) + 2 ^ 29)"
    by (rule sqrt_approx_passed)
  with uint_bit_steps [of num] show ?thesis
    by simp
qed

text \<open>At \<open>42.0\<close>, the pattern \<open>0x42280000\<close>, the approximation is \<open>6.625\<close>.\<close>

theorem sqrt_approx_bit_steps_witness:
  "is_finite 0x42280000 \<and> flt_le (int_to_float 0) 0x42280000
   \<and> sqrt_approx 0x42280000 = Inr 0x40D40000
   \<and> decode32 0x40D40000 = Fin False (53 / 8)"
proof -
  have f: "is_finite 0x42280000"
    by code_simp
  have g: "flt_le (int_to_float 0) 0x42280000"
    by code_simp
  have v: "decode32 0x40D40000 = Fin False (53 / 8)"
    by code_simp
  from sqrt_approx_bit_steps [OF f g] f g v show ?thesis
    by simp
qed

text \<open>
  C9. \<^verbatim>\<open>sqrt_approx(0.0f)\<close> is not zero. The subtraction of \<open>1 << 23\<close> from the pattern
  \<open>0\<close> wraps to \<open>0xFF800000\<close>, the shift and the addition give \<open>0x9FC00000\<close>, which is
  the negative number \<open>-3 / 2 ^ 65\<close>, between \<open>-8.2e-20\<close> and \<open>-8.1e-20\<close>. \<^verbatim>\<open>sqrt_3(0.0f)\<close>
  returns \<open>-3 / 2 ^ 67\<close>, negative and not zero either.
\<close>

theorem sqrt_approx_of_zero:
  "(0 :: 32 word) - push_bit 23 1 = 0xFF800000
   \<and> drop_bit 1 (0xFF800000 :: 32 word) + push_bit 29 1 = 0x9FC00000
   \<and> decode32 0 = Fin False 0
   \<and> sqrt_approx 0 = Inr 0x9FC00000
   \<and> decode32 0x9FC00000 = Fin True (3 / 2 ^ 65)
   \<and> 81 / 10 ^ 21 < (3 / 2 ^ 65 :: rat) \<and> (3 / 2 ^ 65 :: rat) < 82 / 10 ^ 21
   \<and> sqrt_3 0 = Inr 0x9EC00000
   \<and> decode32 0x9EC00000 = Fin True (3 / 2 ^ 67)"
proof -
  have g: "\<not> flt_lt 0 (int_to_float 0)"
    by code_simp
  have b: "drop_bit 1 ((0 :: 32 word) - 2 ^ 23) + 2 ^ 29 = 0x9FC00000"
    by simp
  have d0: "decode32 0 = Fin False 0"
    by code_simp
  have d1: "decode32 0x9FC00000 = Fin True (3 / 2 ^ 65)"
    by code_simp
  have d2: "decode32 0x9EC00000 = Fin True (3 / 2 ^ 67)"
    by code_simp
  have a: "sqrt_approx 0 = Inr 0x9FC00000"
    using sqrt_approx_passed [OF g] by (simp only: b)
  have s: "sqrt_3 0 = Inr 0x9EC00000"
    using sqrt_3_passed [OF g] by (simp only: b newton_at_zero)
  show ?thesis
    by (simp add: a s d0 d1 d2)
qed

subsection \<open>Newton's method\<close>

text \<open>
  C2. For every \<^verbatim>\<open>float\<close> \<open>num \<ge> 0\<close>, the check \<^verbatim>\<open>num < 0\<close> that \<^verbatim>\<open>sqrt_3\<close> makes itself
  is false, the initial guess is the value of \<^verbatim>\<open>sqrt_approx(num)\<close>, and \<^verbatim>\<open>sqrt_3\<close> returns
  the second of two applications of the update \<open>x \<mapsto> 0.5 \<sqdot> (x + num / x)\<close> to it.
\<close>

theorem sqrt_3_two_iterations:
  assumes "flt_le (int_to_float 0) num"
  shows "\<not> flt_lt num (int_to_float 0)
         \<and> (\<exists>x0. sqrt_approx num = Inr x0
                \<and> sqrt_3 num = Inr (newton_update num (newton_update num x0)))"
proof -
  from assms have g: "\<not> flt_lt num (int_to_float 0)"
    by (rule flt_le_not_lt)
  then show ?thesis
    by (simp add: sqrt_approx_passed sqrt_3_passed)
qed

text \<open>
  At \<open>42.0\<close> the guess is \<open>6.625\<close> and the two iterations give \<open>0x40CF6F18\<close> and then
  \<open>0x40CF623A\<close>, the \<^verbatim>\<open>float\<close> nearest to \<open>\<surd>42\<close>.
\<close>

theorem sqrt_3_two_iterations_witness:
  "flt_le (int_to_float 0) 0x42280000
   \<and> sqrt_approx 0x42280000 = Inr 0x40D40000
   \<and> newton_update 0x42280000 0x40D40000 = 0x40CF6F18
   \<and> newton_update 0x42280000 0x40CF6F18 = 0x40CF623A
   \<and> sqrt_3 0x42280000 = Inr 0x40CF623A"
proof -
  have g: "flt_le (int_to_float 0) 0x42280000"
    by code_simp
  have a: "sqrt_approx 0x42280000 = Inr 0x40D40000"
    by code_simp
  from sqrt_3_two_iterations [OF g] g a newton_at_42 show ?thesis
    by simp
qed

subsection \<open>Invalid and exceptional inputs\<close>

text \<open>
  C3. For every \<^verbatim>\<open>float\<close> \<open>num < 0\<close>, each of \<^verbatim>\<open>sqrt_approx\<close>, \<^verbatim>\<open>sqrt_1\<close>, \<^verbatim>\<open>sqrt_2\<close> and
  \<^verbatim>\<open>sqrt_3\<close> raises \<open>InvalidArgument\<close> and returns nothing. Nothing catches it: a
  benchmark block that runs at least once on a negative input ends with the same
  exception, whichever of the three strategies it times.
\<close>

theorem negative_input_raises:
  assumes "flt_lt num (int_to_float 0)"
    and "flt_lt (int_to_float (sint n)) (int_to_float 0)"
    and "0 < sint test_runs"
  shows "sqrt_approx num = Inl InvalidArgument
         \<and> sqrt_1 lib num = Inl InvalidArgument
         \<and> sqrt_2 lib num = Inl InvalidArgument
         \<and> sqrt_3 num = Inl InvalidArgument
         \<and> block timer (sqrt_1 lib) label n test_runs w = Inl InvalidArgument
         \<and> block timer (sqrt_2 lib) label n test_runs w = Inl InvalidArgument
         \<and> block timer sqrt_3 label n test_runs w = Inl InvalidArgument"
proof -
  from assms(1) have a: "sqrt_approx num = Inl InvalidArgument"
    and b: "sqrt_1 lib num = Inl InvalidArgument"
    and c: "sqrt_2 lib num = Inl InvalidArgument"
    and d: "sqrt_3 num = Inl InvalidArgument"
    by (simp_all add: sqrt_approx_def sqrt_1_def sqrt_2_def sqrt_3_def)
  from assms(2) have "sqrt_1 lib (int_to_float (sint n)) = Inl InvalidArgument"
    and "sqrt_2 lib (int_to_float (sint n)) = Inl InvalidArgument"
    and "sqrt_3 (int_to_float (sint n)) = Inl InvalidArgument"
    by (simp_all add: sqrt_1_def sqrt_2_def sqrt_3_def)
  with assms(3) a b c d show ?thesis
    by (simp add: block_raises)
qed

text \<open>At \<open>-1.0\<close>, the pattern \<open>0xBF800000\<close>, which is also \<^verbatim>\<open>(float)num\<close> for \<open>num = -1\<close>.\<close>

theorem negative_input_raises_witness:
  "flt_lt 0xBF800000 (int_to_float 0)
   \<and> decode32 0xBF800000 = Fin True 1
   \<and> int_to_float (sint (- 1 :: 8 word)) = 0xBF800000
   \<and> 0 < sint (10000 :: 16 word)
   \<and> sqrt_approx 0xBF800000 = Inl InvalidArgument
   \<and> sqrt_1 example_cmath 0xBF800000 = Inl InvalidArgument
   \<and> sqrt_2 example_cmath 0xBF800000 = Inl InvalidArgument
   \<and> sqrt_3 0xBF800000 = Inl InvalidArgument
   \<and> block (\<lambda>k. 25) sqrt_3 ''Newton's Method'' (- 1) 10000 \<lparr>calls = 0, stdout = []\<rparr>
       = Inl InvalidArgument"
proof -
  have v: "decode32 0xBF800000 = Fin True 1"
    by code_simp
  have c: "int_to_float (sint (- 1 :: 8 word)) = 0xBF800000"
    by code_simp
  have g: "flt_lt 0xBF800000 (int_to_float 0)"
    by code_simp
  have g': "flt_lt (int_to_float (sint (- 1 :: 8 word))) (int_to_float 0)"
    by (simp only: c g)
  have t: "0 < sint (10000 :: 16 word)"
    by simp
  from negative_input_raises [OF g g' t, of example_cmath "\<lambda>k. 25" "''Newton's Method''"
      "\<lparr>calls = 0, stdout = []\<rparr>"] v c g t
  show ?thesis
    by simp
qed

text \<open>
  C10. For a NaN input the comparison \<^verbatim>\<open>num < 0\<close> is false, so none of the four functions
  raises \<open>InvalidArgument\<close>: each goes on and returns a value.
\<close>

theorem nan_passes_guard:
  assumes "is_nan num"
  shows "\<not> flt_lt num (int_to_float 0)
         \<and> sqrt_approx num = Inr (drop_bit 1 (num - push_bit 23 1) + push_bit 29 1)
         \<and> sqrt_1 lib num = Inr (double_to_float (pow_double lib (float_to_double num) half))
         \<and> sqrt_2 lib num = Inr (sqrt_float lib num)
         \<and> sqrt_3 num = Inr (newton_update num (newton_update num
                               (drop_bit 1 (num - push_bit 23 1) + push_bit 29 1)))"
proof -
  from assms have g: "\<not> flt_lt num (int_to_float 0)"
    by (rule is_nan_not_lt)
  then show ?thesis
    by (simp add: sqrt_approx_passed sqrt_3_passed sqrt_1_def sqrt_2_def)
qed

text \<open>
  At the quiet NaN \<open>0x7FC00000\<close>: the approximation returns the finite pattern
  \<open>0x5FA00000\<close>, and Newton's method a NaN.
\<close>

theorem nan_passes_guard_witness:
  "is_nan 0x7FC00000
   \<and> sqrt_approx 0x7FC00000 = Inr 0x5FA00000
   \<and> sqrt_1 example_cmath 0x7FC00000 = Inr 0x7FC00000
   \<and> sqrt_2 example_cmath 0x7FC00000 = Inr 0x7FC00000
   \<and> sqrt_3 0x7FC00000 = Inr 0x7FC00000"
proof -
  have n: "is_nan 0x7FC00000"
    by code_simp
  have a: "drop_bit 1 (0x7FC00000 - push_bit 23 1) + push_bit 29 1 = (0x5FA00000 :: 32 word)"
    by simp
  have s: "newton_update 0x7FC00000 (newton_update 0x7FC00000 0x5FA00000) = 0x7FC00000"
    by code_simp
  have p: "double_to_float (pow_double example_cmath (float_to_double 0x7FC00000) half)
             = 0x7FC00000"
    by code_simp
  have q: "sqrt_float example_cmath 0x7FC00000 = 0x7FC00000"
    by code_simp
  from nan_passes_guard [OF n, of example_cmath] n
  show ?thesis
    by (simp only: a s p q simp_thms)
qed

subsection \<open>The reference implementations\<close>

text \<open>
  C5. \<^verbatim>\<open>sqrt_2(42.0)\<close> returns what the library's \<^verbatim>\<open>sqrt\<close> returns for \<^verbatim>\<open>42.0f\<close>, the same
  pattern, for any library: after its check the function only delegates.
\<close>

theorem sqrt_2_delegates:
  "decode32 0x42280000 = Fin False 42
   \<and> sqrt_2 lib 0x42280000 = Inr (sqrt_float lib 0x42280000)"
proof -
  have "decode32 0x42280000 = Fin False 42"
    by code_simp
  then show ?thesis
    by (simp add: sqrt_2_def not_negative_42)
qed



subsection \<open>The benchmark harness\<close>

text \<open>
  C4. Let a block run \<open>N = test_runs > 0\<close> times on a strategy that returns \<open>r\<close>, let the
  \<open>N\<close> measured durations be non-negative and their sum fit the signed 64-bit total.
  Then the block hands to \<^verbatim>\<open>print_result\<close> the result \<open>r\<close> and the average
  \<open>\<lfloor>sum / N\<rfloor>\<close>, which is also the number that \<^verbatim>\<open>%lu\<close> prints; for \<open>N = 1\<close> the average is
  the one duration itself. The loop leaves \<open>r\<close> in \<^verbatim>\<open>result\<close> whatever the variable held
  before: each iteration overwrites it, and nothing is aggregated.
\<close>

theorem reported_average_is_floor:
  assumes "0 < sint test_runs"
    and "f (int_to_float (sint num)) = Inr r"
    and "\<forall>j \<in> {k..<k + nat (sint test_runs)}. 0 \<le> sint (timer j)"
    and "(\<Sum>j = k..<k + nat (sint test_runs). sint (timer j)) < 2 ^ 63"
  shows "\<exists>avg. measure_block timer f num test_runs k = Inr (k + nat (sint test_runs), r, avg)
           \<and> sint avg
               = (\<Sum>j = k..<k + nat (sint test_runs). sint (timer j)) div sint test_runs
           \<and> fmt_lu avg
               = dec ((\<Sum>j = k..<k + nat (sint test_runs). sint (timer j)) div sint test_runs)
           \<and> (sint test_runs = 1 \<longrightarrow> avg = timer k)
           \<and> block timer f label num test_runs \<lparr>calls = k, stdout = out\<rparr>
               = Inr \<lparr>calls = k + nat (sint test_runs),
                      stdout = print_result label num r avg out\<rparr>
           \<and> (\<forall>b. \<exists>b'. bench_loop timer f (int_to_float (sint num)) (sint test_runs) 0 b
                             = Inr b'
                       \<and> result b' = Some r)"
proof -
  let ?A = "{k..<k + nat (sint test_runs)}"
  let ?S = "\<Sum>j\<in>?A. sint (timer j)"
  let ?avg = "int64_div (\<Sum>j\<in>?A. timer j) (scast test_runs)"
  have nonneg: "0 \<le> ?S"
    using assms(3) by (intro sum_nonneg) simp
  have total: "sint (\<Sum>j\<in>?A. timer j) = ?S"
    using nonneg assms(4) by (rule sint_sum_in_range)
  have avg: "sint ?avg = ?S div sint test_runs"
    using int64_div_nonneg [of "\<Sum>j\<in>?A. timer j" test_runs] nonneg assms(1)
    by (simp add: total)
  have "0 \<le> ?S div sint test_runs"
    using nonneg assms(1) by (simp add: pos_imp_zdiv_nonneg_iff)
  then have shown: "fmt_lu ?avg = dec (?S div sint test_runs)"
    using uint_of_nonneg [of ?avg] by (simp add: fmt_lu_def avg)
  have one: "?avg = timer k" if "sint test_runs = 1"
  proof (rule signed_word_eqI)
    from that avg show "(signed ?avg :: int) = signed (timer k)"
      by simp
  qed
  have loop: "\<exists>b'. bench_loop timer f (int_to_float (sint num)) (sint test_runs) 0 b = Inr b'
                \<and> result b' = Some r" for b
    using assms(1,2) by (simp add: bench_loop_returns)
  show ?thesis
    using measure_block_returns [where f = f and timer = timer and k = k, OF assms(1,2)]
      block_returns [where f = f and timer = timer and label = label
        and w = "\<lparr>calls = k, stdout = out\<rparr>", OF assms(1,2)]
      avg shown one loop
    by (intro exI [of _ ?avg]) simp
qed

text \<open>
  Three runs of \<^verbatim>\<open>sqrt_3\<close> on 42 that take 10, 20 and 35 nanoseconds average to 21, the
  floor of \<open>65 / 3\<close>; one run that takes 10 averages to 10.
\<close>

theorem reported_average_is_floor_witness:
  "0 < sint (3 :: 16 word)
   \<and> sqrt_3 (int_to_float (sint (42 :: 8 word))) = Inr 0x40CF623A
   \<and> sint (example_timer 0) = 10 \<and> sint (example_timer 1) = 20
   \<and> sint (example_timer 2) = 35
   \<and> (\<Sum>j = 0..<0 + nat (sint (3 :: 16 word)). sint (example_timer j)) = 65
   \<and> measure_block example_timer sqrt_3 42 3 0 = Inr (3, 0x40CF623A, 21)
   \<and> measure_block example_timer sqrt_3 42 1 0 = Inr (1, 0x40CF623A, 10)"
proof -
  have r: "sqrt_3 (int_to_float (sint (42 :: 8 word))) = Inr 0x40CF623A"
    by (simp only: num_to_float sqrt_3_at_42)
  have n3: "0 < sint (3 :: 16 word)" and n1: "0 < sint (1 :: 16 word)"
    by simp_all
  have p3: "\<forall>j \<in> {0..<0 + nat (sint (3 :: 16 word))}. 0 \<le> sint (example_timer j)"
    and p1: "\<forall>j \<in> {0..<0 + nat (sint (1 :: 16 word))}. 0 \<le> sint (example_timer j)"
    by (simp_all add: example_timer_def)
  have s3: "(\<Sum>j = 0..<0 + nat (sint (3 :: 16 word)). sint (example_timer j)) = 65"
    using example_timer_sum3 by simp
  have s1: "(\<Sum>j = 0..<0 + nat (sint (1 :: 16 word)). sint (example_timer j)) = 10"
    by (simp add: example_timer_def)
  have b3: "(\<Sum>j = 0..<0 + nat (sint (3 :: 16 word)). sint (example_timer j)) < 2 ^ 63"
    and b1: "(\<Sum>j = 0..<0 + nat (sint (1 :: 16 word)). sint (example_timer j)) < 2 ^ 63"
    by (simp_all only: s3 s1) simp_all
  from reported_average_is_floor [where f = sqrt_3 and timer = example_timer, OF n3 r p3 b3]
  obtain a3 where m3: "measure_block example_timer sqrt_3 42 3 0
                         = Inr (0 + nat (sint (3 :: 16 word)), 0x40CF623A, a3)"
    and v3: "sint a3 = (\<Sum>j = 0..<0 + nat (sint (3 :: 16 word)). sint (example_timer j))
                         div sint (3 :: 16 word)"
    by blast
  from reported_average_is_floor [where f = sqrt_3 and timer = example_timer, OF n1 r p1 b1]
  obtain a1 where m1: "measure_block example_timer sqrt_3 42 1 0
                         = Inr (0 + nat (sint (1 :: 16 word)), 0x40CF623A, a1)"
    and v1: "sint (1 :: 16 word) = 1 \<longrightarrow> a1 = example_timer 0"
    by blast
  have "sint a3 = sint (21 :: 64 word)"
    unfolding v3 s3 by simp
  then have "a3 = 21"
    by (intro signed_word_eqI) simp
  moreover have "a1 = 10"
    using v1 by (simp add: example_timer_def)
  ultimately show ?thesis
    using m3 m1 r n3 s3 by (simp add: example_timer_def)
qed

subsection \<open>Standard output and the exit code\<close>

text \<open>
  C7. Standard output of a run is exactly three reports, for the power function, for the
  square-root primitive and for Newton's method in this order, and a final empty line.
  Each report is an empty line, the label with a colon, the line \<open>sqrt(42) = \<close> followed
  by the result as \<^verbatim>\<open>%18.17f\<close> writes it, and the line of the average runtime with the
  nanoseconds as an unsigned decimal numeral. The text of a finite result is fixed-point
  with exactly 17 digits after the point, and the numeral of the average is a non-empty
  string of digits. The result of Newton's method does not depend on the library: its
  text is \<open>6.48074054718017578\<close>.
\<close>

theorem output_format:
  "main_prog p lib timer =
     Inr (0,
       nl @ ''math.h pow function:'' @ nl
       @ tab @ ''sqrt(42) = ''
       @ fmt_f 18 17 (float_to_double (double_to_float (pow_double lib 0x4045000000000000 half)))
       @ nl
       @ tab @ ''Average runtime = '' @ fmt_lu (int64_div (sum timer {0..<10000}) 10000)
       @ '' nanoseconds.'' @ nl
       @ nl @ ''cmath sqrt function:'' @ nl
       @ tab @ ''sqrt(42) = '' @ fmt_f 18 17 (float_to_double (sqrt_float lib 0x42280000)) @ nl
       @ tab @ ''Average runtime = '' @ fmt_lu (int64_div (sum timer {10000..<20000}) 10000)
       @ '' nanoseconds.'' @ nl
       @ nl @ ''Newton's Method:'' @ nl
       @ tab @ ''sqrt(42) = '' @ ''6.48074054718017578'' @ nl
       @ tab @ ''Average runtime = '' @ fmt_lu (int64_div (sum timer {20000..<30000}) 10000)
       @ '' nanoseconds.'' @ nl
       @ nl)
   \<and> (\<forall>d s m. decode64 d = Fin s m \<longrightarrow>
          (\<exists>ip fr. fmt_f 18 17 d = sign_text s @ ip @ ''.'' @ fr
             \<and> ip \<noteq> [] \<and> list_all is_digit ip \<and> length fr = 17 \<and> list_all is_digit fr))
   \<and> (\<forall>a. fmt_lu a \<noteq> [] \<and> list_all is_digit (fmt_lu a))"
  using main_prog_runs [of p lib timer] fmt_f_fixed_point fmt_lu_digits
  by (simp only: newton_text) blast

text \<open>
  The run with the example library and a clock that measures 37 nanoseconds for every
  call, and the text of the \<^verbatim>\<open>double\<close> \<open>0x4019EC4740000000\<close>, which is \<open>6795549 / 2 ^ 20\<close>.
\<close>

theorem output_format_witness:
  "main_prog \<lparr>argc = 1, argv = [''./sqrt''], environ = []\<rparr> example_cmath (\<lambda>k. 37) =
     Inr (0,
       nl @ ''math.h pow function:'' @ nl
       @ tab @ ''sqrt(42) = 6.48074054718017578'' @ nl
       @ tab @ ''Average runtime = 37 nanoseconds.'' @ nl
       @ nl @ ''cmath sqrt function:'' @ nl
       @ tab @ ''sqrt(42) = 6.48074054718017578'' @ nl
       @ tab @ ''Average runtime = 37 nanoseconds.'' @ nl
       @ nl @ ''Newton's Method:'' @ nl
       @ tab @ ''sqrt(42) = 6.48074054718017578'' @ nl
       @ tab @ ''Average runtime = 37 nanoseconds.'' @ nl
       @ nl)
   \<and> decode64 0x4019EC4740000000 = Fin False (6795549 / 1048576)
   \<and> fmt_f 18 17 0x4019EC4740000000 = sign_text False @ ''6'' @ ''.'' @ ''48074054718017578''"
proof -
  have t: "fmt_f 18 17 0x4019EC4740000000 = ''6.48074054718017578''"
    using newton_text by (simp only: widen_result)
  from output_format [of "\<lparr>argc = 1, argv = [''./sqrt''], environ = []\<rparr>" example_cmath
      "\<lambda>k. 37"]
  show ?thesis
    by (simp add: example_run widen_result t average_37 result_value sign_text_def)
qed

text \<open>
  C8. Two runs of the program with the same library and the same measured durations write
  the same output and return the exit code 0, whatever their command-line arguments and
  environment are: \<^verbatim>\<open>main\<close> reads neither, and the input 42 and the 10000 repetitions are
  constants of the program.
\<close>

theorem output_ignores_arguments:
  "main_prog p lib timer = main_prog p' lib timer
   \<and> (\<exists>out. main_prog p lib timer = Inr (0, out))"
  by (simp add: main_prog_runs)

end
